theory Spec2Isabelle
  imports Main
begin

section \<open>Strings and JavaScript values\<close>

text \<open>
  \<^verbatim>\<open>Array.prototype.join\<close>: the elements separated by \<open>sep\<close>; the empty array joins to
  the empty string. It is stated for lists of any element type, strings being lists of
  characters.
\<close>

fun join :: "'a list \<Rightarrow> 'a list list \<Rightarrow> 'a list" where
  "join sep [] = []"
| "join sep [x] = x"
| "join sep (x # y # ys) = x @ sep @ join sep (y # ys)"

text \<open>
  \<^verbatim>\<open>String.prototype.toUpperCase\<close> on ASCII text (the logical operators of the framework
  are the literals \<^verbatim>\<open>"and"\<close> and \<^verbatim>\<open>"or"\<close>): the letters a to z are mapped, every other byte
  is kept. The Unicode mappings of the method beyond ASCII are outside this model; the
  properties below are about joiners that this function maps to \<^verbatim>\<open>AND\<close> or \<^verbatim>\<open>OR\<close>, which
  are ASCII.
\<close>

definition upper_char :: "char \<Rightarrow> char" where
  "upper_char c =
     (case map_of (zip ''abcdefghijklmnopqrstuvwxyz'' ''ABCDEFGHIJKLMNOPQRSTUVWXYZ'') c of
        Some u \<Rightarrow> u
      | None \<Rightarrow> c)"

definition toUpperCase :: "string \<Rightarrow> string" where
  "toUpperCase s = map upper_char s"

text \<open>The number of positional parameter markers of a SQL text: its \<open>?\<close> characters.\<close>

definition placeholders :: "string \<Rightarrow> nat" where
  "placeholders s = count_list s (CHR ''?'')"

section \<open>The condition tree and its compiler (mysql.where.parser.ts)\<close>

text \<open>
  What \<^verbatim>\<open>MySqlWhereParser.parse\<close> can be handed: \<^verbatim>\<open>null\<close>, an instance of the
  framework's \<^verbatim>\<open>Where\<close> class (read through its \<^verbatim>\<open>result\<close> property), an object with a
  \<^verbatim>\<open>left\<close> key (a leaf: left, operator, right), an object with a \<^verbatim>\<open>conditions\<close> key
  (a group: conditions, operator), or an object with neither key. Operators are the
  strings the source switches on.
\<close>

datatype 'v where_condition =
    Null
  | WhereInst "'v Where"
  | Condition string string 'v
  | NestedCondition "'v where_condition list" string
  | Malformed
and 'v Where = Where (result: "'v where_condition")

text \<open>The errors the compiler layer throws.\<close>

datatype error =
    UnsupportedOperator string
  | InvalidConditionFormat
  | TypeError

record 'v parsed =
  query :: string
  values_p :: "'v list"

definition convertOperatorToSql :: "string \<Rightarrow> error + string" where
  "convertOperatorToSql operator =
     (if operator = ''eq'' then Inr ''=''
      else if operator = ''ne'' then Inr ''!=''
      else if operator = ''gt'' then Inr ''>''
      else if operator = ''lt'' then Inr ''<''
      else if operator = ''gte'' then Inr ''>=''
      else if operator = ''lte'' then Inr ''<=''
      else if operator = ''in'' then Inr ''IN''
      else if operator = ''nin'' then Inr ''NOT IN''
      else if operator = ''like'' then Inr ''LIKE''
      else Inl (UnsupportedOperator operator))"

definition parseSimpleCondition :: "string \<Rightarrow> string \<Rightarrow> 'v \<Rightarrow> error + 'v parsed" where
  "parseSimpleCondition left operator right =
     (case convertOperatorToSql operator of
        Inl e \<Rightarrow> Inl e
      | Inr sqlOperator \<Rightarrow>
          Inr \<lparr>query = left @ '' '' @ sqlOperator @ '' ?'', values_p = [right]\<rparr>)"

text \<open>
  \<open>parse\<close> and the loop of \<^verbatim>\<open>parseNestedCondition\<close> over the children, with its two
  accumulators \<^verbatim>\<open>sqlParts\<close> and \<^verbatim>\<open>values\<close>; a child that throws ends the loop.
\<close>

fun parse :: "'v where_condition \<Rightarrow> error + 'v parsed"
  and parseLoop :: "'v where_condition list \<Rightarrow> string list \<Rightarrow> 'v list
                      \<Rightarrow> error + (string list \<times> 'v list)" where
  "parse Null = Inr \<lparr>query = ''1=1'', values_p = []\<rparr>"
| "parse (WhereInst (Where d)) = parse d"
| "parse (Condition left operator right) = parseSimpleCondition left operator right"
| "parse (NestedCondition conditions operator) =
     (case parseLoop conditions [] [] of
        Inl e \<Rightarrow> Inl e
      | Inr (sqlParts, vals) \<Rightarrow>
          Inr \<lparr>query = join ('' '' @ toUpperCase operator @ '' '') sqlParts, values_p = vals\<rparr>)"
| "parse Malformed = Inl InvalidConditionFormat"
| "parseLoop [] sqlParts vals = Inr (sqlParts, vals)"
| "parseLoop (c # cs) sqlParts vals =
     (case parse c of
        Inl e \<Rightarrow> Inl e
      | Inr p \<Rightarrow> parseLoop cs (sqlParts @ [''('' @ query p @ '')'']) (vals @ values_p p))"

section \<open>JavaScript numbers and their text\<close>

text \<open>
  The \<^verbatim>\<open>number\<close> values the pagination fields can hold: the finite ones (integers, as the
  data model has them) and the three non-finite ones. \<open>Finite n\<close> stands for an integer of
  magnitude below \<open>10^21\<close>, which a template literal prints digit by digit; larger and
  fractional numbers are outside this model.
\<close>

datatype number = Finite int | Infinity | NegInfinity | NaN

text \<open>\<^verbatim>\<open>Number.isFinite\<close> of a possibly absent property (\<open>None\<close> is \<^verbatim>\<open>undefined\<close>).\<close>

fun isFinite :: "number option \<Rightarrow> bool" where
  "isFinite (Some (Finite n)) = True"
| "isFinite _ = False"

text \<open>Truthiness of a possibly absent number: false for \<^verbatim>\<open>undefined\<close>, 0 and NaN.\<close>

fun truthy :: "number option \<Rightarrow> bool" where
  "truthy None = False"
| "truthy (Some (Finite n)) = (n \<noteq> 0)"
| "truthy (Some NaN) = False"
| "truthy (Some _) = True"

definition digit_char :: "nat \<Rightarrow> char" where
  "digit_char d = ''0123456789'' ! d"

fun show_nat :: "nat \<Rightarrow> string" where
  "show_nat n = (if n < 10 then [digit_char n] else show_nat (n div 10) @ [digit_char (n mod 10)])"

declare show_nat.simps [simp del]

definition show_int :: "int \<Rightarrow> string" where
  "show_int i = (if i < 0 then ''-'' @ show_nat (nat (- i)) else show_nat (nat i))"

text \<open>What a template literal interpolates for a number, and for a missing one.\<close>

fun interpolate :: "number option \<Rightarrow> string" where
  "interpolate None = ''undefined''"
| "interpolate (Some (Finite n)) = show_int n"
| "interpolate (Some Infinity) = ''Infinity''"
| "interpolate (Some NegInfinity) = ''-Infinity''"
| "interpolate (Some NaN) = ''NaN''"

section \<open>The query factory (MySqlQueryFactory)\<close>

subsection \<open>Parameter objects of the framework and the compiled fragments (mysql.types.ts)\<close>

text \<open>
  An optional property is an \<open>option\<close>. An object whose keys are enumerated
  (\<^verbatim>\<open>Object.keys\<close>, \<^verbatim>\<open>Object.values\<close>) is the list of its entries in enumeration order.
\<close>

record 'v FindParams =
  limit_f :: "number option"
  offset_f :: "number option"
  sort_f :: "(string \<times> number) list option"
  where_f :: "'v Where option"

record 'v CountParams =
  where_c :: "'v Where option"

record 'v RemoveParams =
  where_d :: "'v Where option"

record MySqlFindQueryParams =
  q_where :: "string option"
  q_limit :: "string option"
  q_sort :: "string option"

record MySqlCountQueryParams =
  count_where :: "string option"

record MySqlDeleteQueryParams =
  delete_where :: string

record 'v MySqlUpdateRow =
  keys :: "string list"
  values_r :: "'v list"
  where_r :: string

record 'v MySqlUpdateQueryParams =
  updates :: "'v MySqlUpdateRow list"

subsection \<open>createFindQuery\<close>

definition sort_clause :: "(string \<times> number) list \<Rightarrow> string" where
  "sort_clause srt =
     ''ORDER BY '' @
     join '', '' (map (\<lambda>(key, dir). key @ '' '' @ (if dir = Finite (- 1) then ''DESC'' else ''ASC'')) srt)"

definition limit_clause :: "number option \<Rightarrow> number option \<Rightarrow> string option" where
  "limit_clause limit offset =
     (if isFinite limit \<and> isFinite offset
      then Some (''LIMIT '' @ interpolate offset @ '', '' @ interpolate limit)
      else if truthy limit then Some (''LIMIT '' @ interpolate limit)
      else None)"

definition createFindQuery :: "'v FindParams \<Rightarrow> error + MySqlFindQueryParams" where
  "createFindQuery params =
     (case (case where_f params of
              None \<Rightarrow> Inr None
            | Some w \<Rightarrow>
                (case parse (result w) of
                   Inl e \<Rightarrow> Inl e
                 | Inr p \<Rightarrow> Inr (Some (''WHERE '' @ query p)))) of
        Inl e \<Rightarrow> Inl e
      | Inr wh \<Rightarrow>
          Inr \<lparr>q_where = wh,
               q_limit = limit_clause (limit_f params) (offset_f params),
               q_sort = map_option sort_clause (sort_f params)\<rparr>)"

subsection \<open>createCountQuery\<close>

definition createCountQuery :: "'v CountParams \<Rightarrow> error + MySqlCountQueryParams" where
  "createCountQuery params =
     (case where_c params of
        Some w \<Rightarrow>
          (case parse (result w) of
             Inl e \<Rightarrow> Inl e
           | Inr p \<Rightarrow> Inr \<lparr>count_where = Some (''WHERE '' @ query p)\<rparr>)
      | None \<Rightarrow> Inr \<lparr>count_where = Some (''WHERE '' @ [])\<rparr>)"

subsection \<open>createUpdateQuery\<close>

text \<open>
  The caller's \<^verbatim>\<open>where\<close> array is a list of slots, \<open>None\<close> for \<^verbatim>\<open>undefined\<close>. \<^verbatim>\<open>where.at(-1)\<close>
  is the last slot, \<^verbatim>\<open>undefined\<close> on the empty array; reading the \<^verbatim>\<open>result\<close> of an
  \<^verbatim>\<open>undefined\<close> slot is a TypeError.
\<close>

definition at_last :: "'a option list \<Rightarrow> 'a option" where
  "at_last xs = (if xs = [] then None else last xs)"

definition slot :: "'a option list \<Rightarrow> nat \<Rightarrow> 'a option" where
  "slot xs i = (if i < length xs then xs ! i else None)"

text \<open>The padding loop: \<^verbatim>\<open>where.push(lastWhere)\<close>, \<open>diff\<close> times when \<open>diff\<close> is positive.\<close>

definition pad_where :: "nat \<Rightarrow> 'a option list \<Rightarrow> 'a option list" where
  "pad_where n wh =
     (let diff = int n - int (length wh)
      in if diff > 0 then wh @ replicate (nat diff) (at_last wh) else wh)"

text \<open>The \<^verbatim>\<open>forEach\<close> over the payloads, with its index and the \<^verbatim>\<open>rows\<close> built so far.\<close>

fun update_rows :: "(string \<times> 'v) list list \<Rightarrow> nat \<Rightarrow> 'v Where option list
                      \<Rightarrow> 'v MySqlUpdateRow list \<Rightarrow> error + 'v MySqlUpdateRow list" where
  "update_rows [] i wh rows = Inr rows"
| "update_rows (update # rest) i wh rows =
     (case slot wh i of
        None \<Rightarrow> Inl TypeError
      | Some w \<Rightarrow>
          (case parse (result w) of
             Inl e \<Rightarrow> Inl e
           | Inr p \<Rightarrow>
               update_rows rest (Suc i) wh
                 (rows @ [\<lparr>keys = map (\<lambda>key. key @ '' = ?'') (map fst update),
                           values_r = map snd update,
                           where_r = query p\<rparr>])))"

text \<open>
  The result of the call, and the caller's \<^verbatim>\<open>where\<close> array as the call leaves it (also
  when the call throws).
\<close>

definition createUpdateQuery ::
  "(string \<times> 'v) list list \<Rightarrow> 'v Where option list
     \<Rightarrow> (error + 'v MySqlUpdateQueryParams) \<times> 'v Where option list" where
  "createUpdateQuery upds wh =
     (let wh' = pad_where (length upds) wh
      in (map_sum id (\<lambda>rows. \<lparr>updates = rows\<rparr>) (update_rows upds 0 wh' []), wh'))"

subsection \<open>createRemoveQuery\<close>

definition createRemoveQuery :: "'v RemoveParams \<Rightarrow> error + MySqlDeleteQueryParams" where
  "createRemoveQuery params =
     (case where_d params of
        None \<Rightarrow> Inl TypeError
      | Some w \<Rightarrow>
          (if result w \<noteq> Null
           then (case parse (result w) of
                   Inl e \<Rightarrow> Inl e
                 | Inr p \<Rightarrow> Inr \<lparr>delete_where = ''WHERE '' @ query p\<rparr>)
           else Inr \<lparr>delete_where = []\<rparr>))"

subsection \<open>createAggregationQuery\<close>


record MySqlAggregateParams =
  pipeline :: string
  agg_where :: "string option"
  agg_groupBy :: "string option"
  agg_sort :: "string option"

text \<open>Truthiness of a possibly absent string: false for \<^verbatim>\<open>undefined\<close> and the empty string.\<close>

fun truthy_string :: "string option \<Rightarrow> bool" where
  "truthy_string (Some (c # cs)) = True"
| "truthy_string _ = False"


subsection \<open>The caller's side of a compile call\<close>



datatype 'v compiled =
    FindQuery "error + MySqlFindQueryParams"
  | CountQuery "error + MySqlCountQueryParams"
  | UpdateQuery "error + 'v MySqlUpdateQueryParams"
  | RemoveQuery "error + MySqlDeleteQueryParams"
  | AggregationQuery MySqlAggregateParams


section \<open>The collection (mysql.collection.ts)\<close>

subsection \<open>Values, documents and the pool\<close>

text \<open>
  Cell values and bound parameters; a document is the list of its entries in enumeration
  order.
\<close>

datatype val = Num int | Str string | Nul

type_synonym document = "(string \<times> val) list"

text \<open>
  The first element of what \<^verbatim>\<open>pool.query\<close> resolves to: the row array of a SELECT, or
  the header of a mutation with its insert id and affected-row count.
\<close>

record result_set =
  rs_rows :: "document list"
  insertId :: int
  affectedRows :: int

text \<open>
  The injected pool, over a state \<open>'s\<close> of its own (the database, the connection, a log of
  what it was asked). An awaited call either resolves (\<open>Inr\<close>) or rejects with the
  driver's error (\<open>Inl\<close>), and leaves the pool in a new state. \<^verbatim>\<open>await\<close> is sequential
  composition.
\<close>

record 's Pool =
  pool_query :: "string \<Rightarrow> val list option \<Rightarrow> 's \<Rightarrow> (string + result_set) \<times> 's"
  beginTransaction :: "'s \<Rightarrow> (string + unit) \<times> 's"
  commit :: "'s \<Rightarrow> (string + unit) \<times> 's"
  rollback :: "'s \<Rightarrow> (string + unit) \<times> 's"

text \<open>
  What a method of the collection rejects with: the error that
  \<^verbatim>\<open>CollectionError.createError\<close> makes of the caught one, or an error that no handler
  caught.
\<close>

datatype cause = DriverError string | TypeErrorCause

datatype collection_error = CollectionError cause | Uncaught cause

text \<open>A method's argument: a raw statement or the compiled fragments.\<close>

datatype 'a query_arg = Raw string | Params 'a

datatype OperationStatus = Success | Failure

record UpdateStats =
  status :: OperationStatus
  modifiedCount :: "int option"

record RemoveStats =
  remove_status :: string
  deletedCount :: int

record MySqlInsertQueryParams =
  documents :: "document list"
  index0 :: "document option"

text \<open>
  \<open>index0 q\<close> is what \<^verbatim>\<open>query[0]\<close> reads: the property named \<^verbatim>\<open>0\<close> of the parameter
  object. The declared type has the single property \<^verbatim>\<open>documents\<close>, so for every value of
  that type it is \<open>None\<close> (\<^verbatim>\<open>undefined\<close>).
\<close>

subsection \<open>find, remove, count, aggregate\<close>

definition pushed :: "string option \<Rightarrow> string list" where
  "pushed part = (if truthy_string part then [the part] else [])"

definition find_sql :: "string \<Rightarrow> MySqlFindQueryParams query_arg option \<Rightarrow> string" where
  "find_sql collectionName q =
     (case q of
        Some (Raw sql) \<Rightarrow> sql
      | Some (Params ps) \<Rightarrow>
          join '' '' ([''SELECT * FROM '' @ collectionName] @ pushed (q_where ps) @ pushed (q_sort ps)
                       @ pushed (q_limit ps))
      | None \<Rightarrow> join '' '' [''SELECT * FROM '' @ collectionName])"

definition find :: "'s Pool \<Rightarrow> string \<Rightarrow> MySqlFindQueryParams query_arg option \<Rightarrow> 's
                      \<Rightarrow> (collection_error + document list) \<times> 's" where
  "find pool collectionName q s =
     (case pool_query pool (find_sql collectionName q) None s of
        (Inl e, s') \<Rightarrow> (Inl (CollectionError (DriverError e)), s')
      | (Inr r, s') \<Rightarrow> (Inr (rs_rows r), s'))"

definition remove_sql :: "string \<Rightarrow> MySqlDeleteQueryParams query_arg option \<Rightarrow> string" where
  "remove_sql collectionName q =
     (case q of
        Some (Raw sql) \<Rightarrow> sql
      | Some (Params ps) \<Rightarrow>
          join '' '' ([''DELETE FROM '' @ collectionName] @ pushed (Some (delete_where ps)))
      | None \<Rightarrow> join '' '' [''DELETE FROM '' @ collectionName])"

definition remove :: "'s Pool \<Rightarrow> string \<Rightarrow> MySqlDeleteQueryParams query_arg option \<Rightarrow> 's
                        \<Rightarrow> (collection_error + RemoveStats) \<times> 's" where
  "remove pool collectionName q s =
     (case pool_query pool (remove_sql collectionName q) None s of
        (Inl e, s') \<Rightarrow> (Inl (CollectionError (DriverError e)), s')
      | (Inr r, s') \<Rightarrow> (Inr \<lparr>remove_status = ''ok'', deletedCount = affectedRows r\<rparr>, s'))"

definition count_sql :: "string \<Rightarrow> MySqlCountQueryParams query_arg option \<Rightarrow> string" where
  "count_sql collectionName q =
     (case q of
        Some (Raw sql) \<Rightarrow> sql
      | Some (Params ps) \<Rightarrow>
          join '' '' ([''SELECT COUNT(*) AS count FROM '' @ collectionName] @ pushed (count_where ps))
      | None \<Rightarrow> join '' '' [''SELECT COUNT(*) AS count FROM '' @ collectionName])"

text \<open>\<^verbatim>\<open>result[0]?.count\<close> when it is an integer, NaN otherwise.\<close>

definition count_of :: "document list \<Rightarrow> number" where
  "count_of rs =
     (case rs of
        [] \<Rightarrow> NaN
      | r # _ \<Rightarrow> (case map_of r ''count'' of Some (Num n) \<Rightarrow> Finite n | _ \<Rightarrow> NaN))"

definition count :: "'s Pool \<Rightarrow> string \<Rightarrow> MySqlCountQueryParams query_arg option \<Rightarrow> 's
                       \<Rightarrow> (collection_error + number) \<times> 's" where
  "count pool collectionName q s =
     (case pool_query pool (count_sql collectionName q) None s of
        (Inl e, s') \<Rightarrow> (Inl (CollectionError (DriverError e)), s')
      | (Inr r, s') \<Rightarrow> (Inr (count_of (rs_rows r)), s'))"

definition interpolate_string :: "string option \<Rightarrow> string" where
  "interpolate_string part = (case part of Some t \<Rightarrow> t | None \<Rightarrow> ''undefined'')"

definition aggregate_sql :: "string \<Rightarrow> MySqlAggregateParams \<Rightarrow> string" where
  "aggregate_sql collectionName q =
     ''SELECT '' @ pipeline q @ '' FROM '' @ collectionName @ '' '' @ interpolate_string (agg_where q)
       @ '' '' @ interpolate_string (agg_groupBy q) @ '' '' @ interpolate_string (agg_sort q)"

definition aggregate :: "'s Pool \<Rightarrow> string \<Rightarrow> MySqlAggregateParams \<Rightarrow> 's
                           \<Rightarrow> (collection_error + document list) \<times> 's" where
  "aggregate pool collectionName q s =
     (case pool_query pool (aggregate_sql collectionName q) None s of
        (Inl e, s') \<Rightarrow> (Inl (CollectionError (DriverError e)), s')
      | (Inr r, s') \<Rightarrow> (Inr (rs_rows r), s'))"

subsection \<open>insert\<close>

text \<open>\<^verbatim>\<open>{...record, id: v}\<close>: an existing \<^verbatim>\<open>id\<close> entry is overwritten in place, a new one comes last.\<close>

fun with_id :: "document \<Rightarrow> val \<Rightarrow> document" where
  "with_id [] v = [(''id'', v)]"
| "with_id ((k, x) # entries) v =
     (if k = ''id'' then (k, v) # entries else (k, x) # with_id entries v)"

definition insert_sql :: "string \<Rightarrow> document \<Rightarrow> document list \<Rightarrow> string" where
  "insert_sql collectionName first docs =
     (let columns = join '', '' (map fst first);
          placeholders_text =
            join '', '' (map (\<lambda>_. ''('' @ join '', '' (map (\<lambda>_. ''?'') (map fst first)) @ '')'') docs)
      in ''INSERT INTO '' @ collectionName @ '' ('' @ columns @ '') VALUES '' @ placeholders_text)"

definition insert :: "'s Pool \<Rightarrow> string \<Rightarrow> MySqlInsertQueryParams query_arg \<Rightarrow> 's
                        \<Rightarrow> (collection_error + document list) \<times> 's" where
  "insert pool collectionName q s =
     (case q of
        Raw sql \<Rightarrow>
          (case pool_query pool sql None s of
             (Inl e, s') \<Rightarrow> (Inl (CollectionError (DriverError e)), s')
           | (Inr r, s') \<Rightarrow> (Inr [], s'))
      | Params ps \<Rightarrow>
          (case index0 ps of
             None \<Rightarrow> (Inl (CollectionError TypeErrorCause), s)
           | Some first \<Rightarrow>
               (case pool_query pool (insert_sql collectionName first (documents ps))
                       (Some (concat (map (map snd) (documents ps)))) s of
                  (Inl e, s') \<Rightarrow> (Inl (CollectionError (DriverError e)), s')
                | (Inr r, s') \<Rightarrow>
                    (Inr (map (\<lambda>(doc, index). with_id doc (Num (insertId r + int index)))
                            (zip (documents ps) [0 ..< length (documents ps)])), s'))))"

subsection \<open>update\<close>

definition update_sql :: "string \<Rightarrow> 'v MySqlUpdateRow \<Rightarrow> string" where
  "update_sql collectionName row =
     ''UPDATE '' @ collectionName @ '' SET '' @ join '', '' (keys row) @ '' '' @ where_r row"

definition updateOne :: "'s Pool \<Rightarrow> string \<Rightarrow> val MySqlUpdateRow \<Rightarrow> 's
                           \<Rightarrow> (collection_error + UpdateStats) \<times> 's" where
  "updateOne pool collectionName row s =
     (case pool_query pool (update_sql collectionName row) (Some (values_r row)) s of
        (Inl e, s') \<Rightarrow> (Inr \<lparr>status = Failure, modifiedCount = None\<rparr>, s')
      | (Inr r, s') \<Rightarrow> (Inr \<lparr>status = Success, modifiedCount = Some (affectedRows r)\<rparr>, s'))"

text \<open>
  \<^verbatim>\<open>updates.map\<close> issues the statement of every row, in order, before any is awaited;
  \<^verbatim>\<open>Promise.all\<close> then resolves to all the results, or rejects when one of them did.
\<close>

fun issue_all :: "'s Pool \<Rightarrow> string \<Rightarrow> val MySqlUpdateRow list \<Rightarrow> 's
                    \<Rightarrow> (string + result_set) list \<times> 's" where
  "issue_all pool collectionName [] s = ([], s)"
| "issue_all pool collectionName (row # rest) s =
     (case pool_query pool (update_sql collectionName row) (Some (values_r row)) s of
        (r, s') \<Rightarrow>
          (case issue_all pool collectionName rest s' of
             (rs, s'') \<Rightarrow> (r # rs, s'')))"

fun promise_all :: "(string + 'a) list \<Rightarrow> string + 'a list" where
  "promise_all [] = Inr []"
| "promise_all (Inl e # ps) = Inl e"
| "promise_all (Inr r # ps) = (case promise_all ps of Inl e \<Rightarrow> Inl e | Inr rs \<Rightarrow> Inr (r # rs))"

text \<open>The \<^verbatim>\<open>catch\<close> block of \<^verbatim>\<open>updateMany\<close>: roll back, then resolve with the failure status.\<close>

definition updateMany_catch :: "'s Pool \<Rightarrow> 's \<Rightarrow> (collection_error + UpdateStats) \<times> 's" where
  "updateMany_catch pool s =
     (case rollback pool s of
        (Inl e, s') \<Rightarrow> (Inl (Uncaught (DriverError e)), s')
      | (Inr u, s') \<Rightarrow> (Inr \<lparr>status = Failure, modifiedCount = None\<rparr>, s'))"

definition updateMany :: "'s Pool \<Rightarrow> string \<Rightarrow> val MySqlUpdateRow list \<Rightarrow> 's
                            \<Rightarrow> (collection_error + UpdateStats) \<times> 's" where
  "updateMany pool collectionName rows s =
     (case beginTransaction pool s of
        (Inl e, s1) \<Rightarrow> updateMany_catch pool s1
      | (Inr u, s1) \<Rightarrow>
          (case issue_all pool collectionName rows s1 of
             (promises, s2) \<Rightarrow>
               (case promise_all promises of
                  Inl e \<Rightarrow> updateMany_catch pool s2
                | Inr results \<Rightarrow>
                    (case commit pool s2 of
                       (Inl e, s3) \<Rightarrow> updateMany_catch pool s3
                     | (Inr u', s3) \<Rightarrow>
                         (Inr \<lparr>status = Success,
                               modifiedCount = Some (fold (\<lambda>r acc. acc + affectedRows r) results 0)\<rparr>,
                          s3)))))"

definition update :: "'s Pool \<Rightarrow> string \<Rightarrow> val MySqlUpdateQueryParams query_arg \<Rightarrow> 's
                        \<Rightarrow> (collection_error + UpdateStats) \<times> 's" where
  "update pool collectionName q s =
     (case q of
        Raw sql \<Rightarrow>
          (case pool_query pool sql None s of
             (Inl e, s') \<Rightarrow> (Inl (CollectionError (DriverError e)), s')
           | (Inr r, s') \<Rightarrow> (Inr \<lparr>status = Success, modifiedCount = Some (affectedRows r)\<rparr>, s'))
      | Params ps \<Rightarrow>
          (case updates ps of
             [row] \<Rightarrow> updateOne pool collectionName row s
           | rows \<Rightarrow> updateMany pool collectionName rows s))"

subsection \<open>A pool for the examples\<close>

text \<open>
  It records every call it receives, in order, rejects the statements that \<open>rejected\<close>
  selects with the error \<^verbatim>\<open>ER\<close>, and answers every other statement with one affected
  row and insert id 10. Its transaction calls resolve.
\<close>

definition recording_pool :: "(string \<Rightarrow> bool) \<Rightarrow> (string \<times> val list option) list Pool" where
  "recording_pool rejected =
     \<lparr>pool_query = (\<lambda>sql vs s.
        (if rejected sql then Inl ''ER'' else Inr \<lparr>rs_rows = [], insertId = 10, affectedRows = 1\<rparr>,
         s @ [(sql, vs)])),
      beginTransaction = (\<lambda>s. (Inr (), s @ [(''BEGIN'', None)])),
      commit = (\<lambda>s. (Inr (), s @ [(''COMMIT'', None)])),
      rollback = (\<lambda>s. (Inr (), s @ [(''ROLLBACK'', None)]))\<rparr>"

subsection \<open>Vocabulary of the properties\<close>

text \<open>The leaves of a condition tree, and their bound values in pre-order, left to right.\<close>

fun leaves :: "'v where_condition \<Rightarrow> nat" where
  "leaves Null = 0"
| "leaves (WhereInst (Where d)) = leaves d"
| "leaves (Condition left operator right) = 1"
| "leaves (NestedCondition conditions operator) = sum_list (map leaves conditions)"
| "leaves Malformed = 0"

fun leaf_values :: "'v where_condition \<Rightarrow> 'v list" where
  "leaf_values Null = []"
| "leaf_values (WhereInst (Where d)) = leaf_values d"
| "leaf_values (Condition left operator right) = [right]"
| "leaf_values (NestedCondition conditions operator) = concat (map leaf_values conditions)"
| "leaf_values Malformed = []"

text \<open>The closed operator enumeration of the data model, with the SQL token of each.\<close>

definition operator_table :: "(string \<times> string) list" where
  "operator_table =
     [(''eq'', ''=''), (''ne'', ''!=''), (''gt'', ''>''), (''lt'', ''<''), (''gte'', ''>=''),
      (''lte'', ''<=''), (''in'', ''IN''), (''nin'', ''NOT IN''), (''like'', ''LIKE'')]"

text \<open>
  A condition tree of the data model: every leaf has a field without a placeholder
  character (an identifier-safe field) and an operator of the closed enumeration, every
  group is joined by \<^verbatim>\<open>and\<close> or \<^verbatim>\<open>or\<close> in any letter case, and no node has another shape.
\<close>

fun well_formed :: "'v where_condition \<Rightarrow> bool" where
  "well_formed Null = True"
| "well_formed (WhereInst (Where d)) = well_formed d"
| "well_formed (Condition left operator right) =
     (CHR ''?'' \<notin> set left \<and> operator \<in> fst ` set operator_table)"
| "well_formed (NestedCondition conditions operator) =
     ((toUpperCase operator = ''AND'' \<or> toUpperCase operator = ''OR'')
      \<and> list_all well_formed conditions)"
| "well_formed Malformed = False"

text \<open>
  Positional binding, as the driver does it: the placeholders of a text are filled from
  left to right with the values of a list, the first placeholder with the first value.
  A filled text is a list of characters (\<open>Inl\<close>) and bound values (\<open>Inr\<close>); a placeholder
  for which no value is left stays a character.
\<close>

fun fill :: "string \<Rightarrow> 'v list \<Rightarrow> (char + 'v) list" where
  "fill [] vs = []"
| "fill (c # cs) vs =
     (if c = CHR ''?''
      then (case vs of [] \<Rightarrow> Inl c # fill cs [] | v # vs' \<Rightarrow> Inr v # fill cs vs')
      else Inl c # fill cs vs)"

text \<open>
  The predicate a condition tree stands for, with every leaf's own value in the place of
  its comparison's right-hand side: \<open>field token value\<close> for a leaf, the parenthesised
  children joined by the upper-cased joiner for a group, \<^verbatim>\<open>1=1\<close> for no condition.
\<close>

fun bound_text :: "'v where_condition \<Rightarrow> (char + 'v) list" where
  "bound_text Null = map Inl ''1=1''"
| "bound_text (WhereInst (Where d)) = bound_text d"
| "bound_text (Condition left operator right) =
     map Inl (left @ '' '' @ (case map_of operator_table operator of Some token \<Rightarrow> token | None \<Rightarrow> [])
                @ '' '') @ [Inr right]"
| "bound_text (NestedCondition conditions operator) =
     join (map Inl ('' '' @ toUpperCase operator @ '' ''))
       (map (\<lambda>c. map Inl ''('' @ bound_text c @ map Inl '')'') conditions)"
| "bound_text Malformed = []"

text \<open>
  What it is for a fragment to be the right compilation of a tree: the compiler returns
  it, its text has one placeholder per leaf, its values are the leaves' values in
  pre-order, and filling the placeholders from left to right with the values puts every
  leaf's value into that leaf's own comparison.
\<close>

definition compiles_to :: "'v where_condition \<Rightarrow> 'v parsed \<Rightarrow> bool" where
  "compiles_to t p \<longleftrightarrow>
     parse t = Inr p
     \<and> placeholders (query p) = leaves t
     \<and> length (values_p p) = leaves t
     \<and> values_p p = leaf_values t
     \<and> fill (query p) (values_p p) = bound_text t"


section \<open>Properties of the condition compiler\<close>

subsection \<open>Counting and filling placeholders\<close>

lemma placeholders_append: "placeholders (a @ b) = placeholders a + placeholders b"
  by (simp add: placeholders_def)

lemma placeholders_absent: "CHR ''?'' \<notin> set s \<Longrightarrow> placeholders s = 0"
  by (simp add: placeholders_def)

lemma placeholders_join:
  "placeholders sep = 0 \<Longrightarrow> placeholders (join sep xs) = sum_list (map placeholders xs)"
  by (induction sep xs rule: join.induct) (simp_all add: placeholders_append, simp add: placeholders_def)

lemma placeholders_joiner:
  "toUpperCase operator = ''AND'' \<or> toUpperCase operator = ''OR'' \<Longrightarrow>
   placeholders ('' '' @ toUpperCase operator @ '' '') = 0"
  by (auto simp: placeholders_def)

lemma fill_without_placeholder: "placeholders s = 0 \<Longrightarrow> fill s vs = map Inl s"
  by (induction s) (auto simp: placeholders_def split: if_splits)

lemma fill_append:
  "placeholders a = length vs \<Longrightarrow> fill (a @ b) (vs @ ws) = fill a vs @ fill b ws"
proof (induction a arbitrary: vs)
  case Nil
  then show ?case by (simp add: placeholders_def)
next
  case (Cons c a)
  show ?case
  proof (cases "c = CHR ''?''")
    case True
    with Cons.prems obtain v vs' where vs: "vs = v # vs'" "placeholders a = length vs'"
      by (cases vs) (auto simp: placeholders_def)
    with Cons.IH [of vs'] True show ?thesis by simp
  next
    case False
    with Cons.prems have "placeholders a = length vs" by (simp add: placeholders_def)
    with Cons.IH [of vs] False show ?thesis by simp
  qed
qed

lemma fill_append_text:
  "placeholders a = 0 \<Longrightarrow> fill (a @ b) ws = map Inl a @ fill b ws"
  using fill_append [of a "[]" b ws] by (simp add: fill_without_placeholder)

lemma fill_join:
  assumes "placeholders sep = 0" and "\<forall>(s, vs) \<in> set svs. placeholders s = length vs"
  shows "fill (join sep (map fst svs)) (concat (map snd svs))
           = join (map Inl sep) (map (\<lambda>(s, vs). fill s vs) svs)"
  using assms(2)
proof (induction svs rule: induct_list012)
  case 1
  show ?case by simp
next
  case (2 x)
  show ?case by (cases x) simp
next
  case (3 x y zs)
  obtain s vs where x: "x = (s, vs)" by (cases x)
  from 3(3) x have len: "placeholders s = length vs" by simp
  from 3(3) have "\<forall>(s, vs) \<in> set (y # zs). placeholders s = length vs" by simp
  from 3(2) [OF this]
  have rest: "fill (join sep (map fst (y # zs))) (concat (map snd (y # zs)))
                = join (map Inl sep) (map (\<lambda>(s, vs). fill s vs) (y # zs))" .
  have "fill (join sep (map fst (x # y # zs))) (concat (map snd (x # y # zs)))
          = fill (s @ (sep @ join sep (map fst (y # zs)))) (vs @ concat (map snd (y # zs)))"
    using x by simp
  also have "\<dots> = fill s vs @ fill (sep @ join sep (map fst (y # zs))) (concat (map snd (y # zs)))"
    by (rule fill_append [OF len])
  also have "fill (sep @ join sep (map fst (y # zs))) (concat (map snd (y # zs)))
               = map Inl sep @ fill (join sep (map fst (y # zs))) (concat (map snd (y # zs)))"
    by (rule fill_append_text [OF assms(1)])
  finally show ?case using rest x by simp
qed

lemma fill_parenthesised:
  "placeholders q = length vs \<Longrightarrow>
   fill (''('' @ q @ '')'') vs = map Inl ''('' @ fill q vs @ map Inl '')''"
  using fill_append [of q vs "'')''" "[]"] by simp

lemma convertOperatorToSql_supported:
  "operator \<in> fst ` set operator_table \<Longrightarrow>
   \<exists>token. convertOperatorToSql operator = Inr token
        \<and> map_of operator_table operator = Some token
        \<and> placeholders token = 0"
  by (auto simp: operator_table_def convertOperatorToSql_def placeholders_def)

lemma length_leaf_values: "length (leaf_values t) = leaves t"
  by (induction t rule: leaves.induct) (simp_all add: length_concat comp_def cong: map_cong)

lemma parseSimpleCondition_supported:
  assumes "CHR ''?'' \<notin> set left" and "operator \<in> fst ` set operator_table"
  shows "\<exists>p. compiles_to (Condition left operator right) p"
proof -
  obtain token where t: "convertOperatorToSql operator = Inr token"
    "map_of operator_table operator = Some token" "placeholders token = 0"
    using convertOperatorToSql_supported [OF assms(2)] by blast
  let ?before = "left @ '' '' @ token @ '' ''"
  let ?p = "\<lparr>query = ?before @ ''?'', values_p = [right]\<rparr>"
  have before: "placeholders ?before = 0"
    using t(3) assms(1) by (simp add: placeholders_append placeholders_absent) (simp add: placeholders_def)
  have returned: "parse (Condition left operator right) = Inr ?p"
    using t(1) by (simp add: parseSimpleCondition_def)
  have count: "placeholders (?before @ ''?'') = 1"
    using before by (simp only: placeholders_append) (simp add: placeholders_def)
  have filled: "fill (?before @ ''?'') [right] = map Inl ?before @ [Inr right]"
    using fill_append_text [OF before, of "''?''" "[right]"] by simp
  have bound: "bound_text (Condition left operator right) = map Inl ?before @ [Inr right]"
    using t(2) by simp
  have "compiles_to (Condition left operator right) ?p"
    unfolding compiles_to_def using returned count filled bound by simp
  then show ?thesis ..
qed

subsection \<open>The compiler on well-formed trees\<close>

lemma compiled_children:
  assumes "list_all2 compiles_to cs ps"
  shows "map (\<lambda>p. placeholders (''('' @ query p @ '')'')) ps = map leaves cs"
    and "map values_p ps = map leaf_values cs"
    and "map (\<lambda>p. fill (''('' @ query p @ '')'') (values_p p)) ps
           = map (\<lambda>c. map Inl ''('' @ bound_text c @ map Inl '')'') cs"
    and "\<forall>p \<in> set ps. placeholders (''('' @ query p @ '')'') = length (values_p p)"
  using assms
proof (induction cs ps rule: list_all2_induct)
  case Nil
  {
    case 1 show ?case by simp
  next
    case 2 show ?case by simp
  next
    case 3 show ?case by simp
  next
    case 4 show ?case by simp
  }
next
  case (Cons c cs p ps)
  from Cons(1) have c: "placeholders (query p) = leaves c" "length (values_p p) = leaves c"
    "values_p p = leaf_values c" "fill (query p) (values_p p) = bound_text c"
    unfolding compiles_to_def by blast+
  have wrapped: "placeholders (''('' @ query p @ '')'') = leaves c"
    using c(1) by (simp add: placeholders_def)
  have filled: "fill (''('' @ query p @ '')'') (values_p p) = map Inl ''('' @ bound_text c @ map Inl '')''"
    using fill_parenthesised [of "query p" "values_p p"] c by simp
  {
    case 1 show ?case using wrapped Cons by simp
  next
    case 2 show ?case using c(3) Cons by simp
  next
    case 3 show ?case using filled Cons by simp
  next
    case 4 show ?case using wrapped c(2) Cons by simp
  }
qed

text \<open>
  The compiler and its loop together: on a well-formed tree \<open>parse\<close> returns the right
  compilation; the loop appends the parenthesised text of each child's compilation to
  \<^verbatim>\<open>sqlParts\<close> and its values to \<^verbatim>\<open>values\<close>, child by child.
\<close>

lemma parse_parseLoop_well_formed:
  fixes t :: "'v where_condition" and cs :: "'v where_condition list"
  shows "well_formed t \<longrightarrow> (\<exists>p. compiles_to t p)"
    and "list_all well_formed cs \<longrightarrow>
           (\<exists>ps. list_all2 compiles_to cs ps
                \<and> parseLoop cs parts vals
                    = Inr (parts @ map (\<lambda>p. ''('' @ query p @ '')'') ps,
                           vals @ concat (map values_p ps)))"
proof (induction t and cs parts vals rule: parse_parseLoop.induct)
  case 1
  show ?case by (simp add: compiles_to_def placeholders_def)
next
  case (2 d)
  then show ?case by (simp add: compiles_to_def)
next
  case (3 left operator right)
  show ?case
    using parseSimpleCondition_supported [of left operator right] by simp
next
  case (4 conditions operator)
  show ?case
  proof
    assume wf: "well_formed (NestedCondition conditions operator)"
    let ?sep = "'' '' @ toUpperCase operator @ '' ''"
    from wf 4 obtain ps where ps: "list_all2 compiles_to conditions ps"
      and loop: "parseLoop conditions [] []
                   = Inr (map (\<lambda>p. ''('' @ query p @ '')'') ps, concat (map values_p ps))"
      by auto
    let ?svs = "map (\<lambda>p. (''('' @ query p @ '')'', values_p p)) ps"
    let ?p = "\<lparr>query = join ?sep (map (\<lambda>p. ''('' @ query p @ '')'') ps),
               values_p = concat (map values_p ps)\<rparr>"
    note kids = compiled_children [OF ps]
    from wf have sep: "placeholders ?sep = 0" using placeholders_joiner by simp
    have returned: "parse (NestedCondition conditions operator) = Inr ?p"
      using loop by simp
    have "placeholders (join ?sep (map (\<lambda>p. ''('' @ query p @ '')'') ps))
            = sum_list (map placeholders (map (\<lambda>p. ''('' @ query p @ '')'') ps))"
      by (rule placeholders_join [OF sep])
    also have "\<dots> = sum_list (map leaves conditions)"
      using kids(1) by (simp only: map_map comp_def)
    finally have count: "placeholders (query ?p) = leaves (NestedCondition conditions operator)"
      by simp
    have vals: "values_p ?p = leaf_values (NestedCondition conditions operator)"
      using kids(2) by simp
    have "fill (join ?sep (map fst ?svs)) (concat (map snd ?svs))
            = join (map Inl ?sep) (map (\<lambda>(s, vs). fill s vs) ?svs)"
      by (rule fill_join [OF sep]) (use kids(4) in auto)
    then have filled: "fill (query ?p) (values_p ?p) = bound_text (NestedCondition conditions operator)"
      using kids(3) by (simp add: comp_def)
    have "compiles_to (NestedCondition conditions operator) ?p"
      unfolding compiles_to_def
      using returned count vals filled length_leaf_values [of "NestedCondition conditions operator"]
      by (simp only:) 
    then show "\<exists>p. compiles_to (NestedCondition conditions operator) p" ..
  qed
next
  case 5
  show ?case by simp
next
  case (6 sqlParts vals)
  show ?case by simp
next
  case (7 c cs sqlParts vals)
  show ?case
  proof
    assume wf: "list_all well_formed (c # cs)"
    then obtain p where p: "compiles_to c p"
      using 7(1) by auto
    then have parsed: "parse c = Inr p" by (simp add: compiles_to_def)
    from wf have "list_all well_formed cs" by simp
    with 7(2) [OF parsed] obtain ps where rest: "list_all2 compiles_to cs ps"
      "parseLoop cs (sqlParts @ [''('' @ query p @ '')'']) (vals @ values_p p) =
         Inr ((sqlParts @ [''('' @ query p @ '')'']) @ map (\<lambda>p. ''('' @ query p @ '')'') ps,
              (vals @ values_p p) @ concat (map values_p ps))"
      by auto
    show "\<exists>ps. list_all2 compiles_to (c # cs) ps
             \<and> parseLoop (c # cs) sqlParts vals
                 = Inr (sqlParts @ map (\<lambda>p. ''('' @ query p @ '')'') ps,
                        vals @ concat (map values_p ps))"
      using p parsed rest by (intro exI [of _ "p # ps"]) simp
  qed
qed

text \<open>
  C1. For every condition tree of the data model (identifier-safe fields, operators of the
  closed enumeration, groups joined by and/or) with \<open>n\<close> leaves, \<open>parse\<close> returns a fragment
  whose text has exactly \<open>n\<close> placeholder characters and whose values are exactly the \<open>n\<close>
  values of the leaves, in pre-order from left to right; a leaf gives one placeholder and
  one value. The values are ordered as the placeholders are: filling the placeholders of
  the text from left to right with the values gives the tree's predicate with every
  leaf's own value in that leaf's comparison.
\<close>

theorem parse_placeholders_match_values:
  fixes t :: "'v where_condition"
  assumes "well_formed t"
  shows "\<exists>p. parse t = Inr p
             \<and> placeholders (query p) = leaves t
             \<and> length (values_p p) = leaves t
             \<and> values_p p = leaf_values t
             \<and> fill (query p) (values_p p) = bound_text t"
  using assms parse_parseLoop_well_formed(1) [of t] unfolding compiles_to_def by blast

theorem parse_placeholders_match_values_witness:
  "well_formed (NestedCondition [Condition ''age'' ''gt'' (Num 18),
                                  NestedCondition [Condition ''status'' ''eq'' (Str ''active''),
                                                   Condition ''role'' ''in'' (Str ''admin'')] ''AND''] ''or'')
   \<and> (\<exists>p. parse (NestedCondition [Condition ''age'' ''gt'' (Num 18),
                                  NestedCondition [Condition ''status'' ''eq'' (Str ''active''),
                                                   Condition ''role'' ''in'' (Str ''admin'')] ''AND''] ''or'') = Inr p
          \<and> query p = ''(age > ?) OR ((status = ?) AND (role IN ?))''
          \<and> placeholders (query p) = 3
          \<and> length (values_p p) = 3
          \<and> values_p p = [Num 18, Str ''active'', Str ''admin'']
          \<and> fill (query p) (values_p p)
              = map Inl ''(age > '' @ [Inr (Num 18)] @ map Inl '') OR ((status = ''
                @ [Inr (Str ''active'')] @ map Inl '') AND (role IN '' @ [Inr (Str ''admin'')]
                @ map Inl ''))'')"
proof -
  let ?t = "NestedCondition [Condition ''age'' ''gt'' (Num 18),
                             NestedCondition [Condition ''status'' ''eq'' (Str ''active''),
                                              Condition ''role'' ''in'' (Str ''admin'')] ''AND''] ''or''"
  have wf: "well_formed ?t"
    by (simp add: operator_table_def toUpperCase_def upper_char_def)
  have n: "leaves ?t = 3" by simp
  have vs: "leaf_values ?t = [Num 18, Str ''active'', Str ''admin'']" by simp
  have bound: "bound_text ?t
                 = map Inl ''(age > '' @ [Inr (Num 18)] @ map Inl '') OR ((status = ''
                   @ [Inr (Str ''active'')] @ map Inl '') AND (role IN '' @ [Inr (Str ''admin'')]
                   @ map Inl ''))''"
    by (simp add: operator_table_def toUpperCase_def upper_char_def)
  have parsed: "parse ?t = Inr \<lparr>query = ''(age > ?) OR ((status = ?) AND (role IN ?))'',
                              values_p = [Num 18, Str ''active'', Str ''admin'']\<rparr>"
    by (simp add: parseSimpleCondition_def convertOperatorToSql_def toUpperCase_def upper_char_def)
  from parse_placeholders_match_values [OF wf] obtain p where p:
    "parse ?t = Inr p" "placeholders (query p) = leaves ?t"
    "length (values_p p) = leaves ?t" "values_p p = leaf_values ?t"
    "fill (query p) (values_p p) = bound_text ?t"
    by blast
  from p(1) parsed have "query p = ''(age > ?) OR ((status = ?) AND (role IN ?))''"
    by simp
  moreover from p(2) n have "placeholders (query p) = 3" by (simp only:)
  moreover from p(3) n have "length (values_p p) = 3" by (simp only:)
  moreover from p(4) vs have "values_p p = [Num 18, Str ''active'', Str ''admin'']" by (simp only:)
  moreover from p(5) bound have "fill (query p) (values_p p)
      = map Inl ''(age > '' @ [Inr (Num 18)] @ map Inl '') OR ((status = ''
        @ [Inr (Str ''active'')] @ map Inl '') AND (role IN '' @ [Inr (Str ''admin'')]
        @ map Inl ''))''"
    by (simp only:)
  ultimately show ?thesis using wf p(1) by blast
qed

text \<open>
  C9. The operator enumeration is closed: each of eq, ne, gt, lt, gte, lte, in, nin, like
  is mapped to its own SQL token (=, !=, >, <, >=, <=, IN, NOT IN, LIKE; no two operators
  share a token), and for every other operator string both the operator conversion and the
  compilation of a leaf with that operator raise the unsupported-operator error.
\<close>

theorem convertOperatorToSql_closed_enumeration:
  "(\<forall>(operator, token) \<in> set operator_table. convertOperatorToSql operator = Inr token)
   \<and> distinct (map fst operator_table)
   \<and> distinct (map snd operator_table)
   \<and> (operator \<notin> fst ` set operator_table \<longrightarrow>
        convertOperatorToSql operator = Inl (UnsupportedOperator operator)
        \<and> parse (Condition left operator right) = Inl (UnsupportedOperator operator))"
  by (simp add: operator_table_def convertOperatorToSql_def parseSimpleCondition_def)

theorem convertOperatorToSql_closed_enumeration_witness:
  "convertOperatorToSql ''nin'' = Inr ''NOT IN''
   \<and> ''regex'' \<notin> fst ` set operator_table
   \<and> convertOperatorToSql ''regex'' = Inl (UnsupportedOperator ''regex'')
   \<and> parse (Condition ''name'' ''regex'' (Str ''a.*'')) = Inl (UnsupportedOperator ''regex'')"
  using convertOperatorToSql_closed_enumeration [of "''regex''" "''name''" "Str ''a.*''"]
  by (simp add: operator_table_def)

section \<open>Properties of the query factory\<close>

subsection \<open>createCountQuery and createRemoveQuery without a condition\<close>

text \<open>
  C3. The claim: without a condition the count compilation yields the neutral-true
  predicate, \<^verbatim>\<open>WHERE 1=1\<close>. The code at \<^verbatim>\<open>createCountQuery({})\<close>: the keyword followed by the
  empty string, \<^verbatim>\<open>"WHERE "\<close>, which the collection's \<open>count\<close> appends to its statement as it is.
\<close>

theorem createCountQuery_without_where:
  "createCountQuery \<lparr>where_c = (None :: val Where option)\<rparr> = Inr \<lparr>count_where = Some ''WHERE ''\<rparr>
   \<and> count_sql ''users'' (Some (Params \<lparr>count_where = Some ''WHERE ''\<rparr>))
       = ''SELECT COUNT(*) AS count FROM users WHERE ''"
  by (simp add: createCountQuery_def count_sql_def pushed_def)

text \<open>With a \<^verbatim>\<open>Where\<close> object that holds no condition, the compiler's own default is used.\<close>

lemma createCountQuery_null_result:
  "createCountQuery \<lparr>where_c = Some (Where Null)\<rparr> = Inr \<lparr>count_where = Some ''WHERE 1=1''\<rparr>"
  by (simp add: createCountQuery_def)

text \<open>
  C6. The claim: without a condition, and in particular at \<^verbatim>\<open>createRemoveQuery({})\<close>, the
  remove compilation returns the empty string. The code at \<^verbatim>\<open>createRemoveQuery({})\<close>: it
  reads \<^verbatim>\<open>params.where.result\<close> of the missing \<^verbatim>\<open>where\<close> and throws a TypeError.
\<close>

theorem createRemoveQuery_without_where:
  "createRemoveQuery \<lparr>where_d = (None :: val Where option)\<rparr> = Inl TypeError"
  by (simp add: createRemoveQuery_def)

text \<open>The empty string is what a \<^verbatim>\<open>Where\<close> object without a condition compiles to.\<close>

lemma createRemoveQuery_null_result:
  "createRemoveQuery \<lparr>where_d = Some (Where Null)\<rparr> = Inr \<lparr>delete_where = []\<rparr>"
  by (simp add: createRemoveQuery_def)

subsection \<open>The limit fragment of createFindQuery\<close>

lemma q_limit_createFindQuery:
  "createFindQuery params = Inr out \<Longrightarrow> q_limit out = limit_clause (limit_f params) (offset_f params)"
  by (auto simp: createFindQuery_def split: option.splits sum.splits)

lemma limit_clause_both_finite:
  "\<bar>l\<bar> < 10 ^ 21 \<Longrightarrow> \<bar>off\<bar> < 10 ^ 21 \<Longrightarrow>
   limit_clause (Some (Finite l)) (Some (Finite off)) = Some (''LIMIT '' @ show_int off @ '', '' @ show_int l)"
  by (simp add: limit_clause_def)

lemma limit_clause_limit_only:
  "\<bar>l\<bar> < 10 ^ 21 \<Longrightarrow> \<not> isFinite offset \<Longrightarrow> l \<noteq> 0 \<Longrightarrow>
   limit_clause (Some (Finite l)) offset = Some (''LIMIT '' @ show_int l)"
  by (simp add: limit_clause_def)

lemma limit_clause_without_limit: "limit_clause None offset = None"
  by (simp add: limit_clause_def)

lemma limit_clause_examples:
  "limit_clause (Some (Finite 10)) (Some (Finite 5)) = Some ''LIMIT 5, 10''"
  "limit_clause (Some (Finite 10)) None = Some ''LIMIT 10''"
  "limit_clause None (Some (Finite 5)) = None"
  by (simp_all add: limit_clause_def show_int_def show_nat.simps digit_char_def)

text \<open>
  C7. The claim: a finite limit alone, 0 included, gives \<^verbatim>\<open>LIMIT <limit>\<close>, and there is no
  fragment otherwise. The code: when the pair is not finite it tests the truthiness of
  \<open>limit\<close>, so limit 0 alone gives no fragment, and an infinite limit gives one.
\<close>

theorem createFindQuery_limit_zero:
  "createFindQuery \<lparr>limit_f = Some (Finite 0), offset_f = None, sort_f = None,
                     where_f = (None :: val Where option)\<rparr>
     = Inr \<lparr>q_where = None, q_limit = None, q_sort = None\<rparr>
   \<and> createFindQuery \<lparr>limit_f = Some (Finite 0), offset_f = Some (Finite 0), sort_f = None,
                       where_f = (None :: val Where option)\<rparr>
     = Inr \<lparr>q_where = None, q_limit = Some ''LIMIT 0, 0'', q_sort = None\<rparr>
   \<and> createFindQuery \<lparr>limit_f = Some Infinity, offset_f = None, sort_f = None,
                       where_f = (None :: val Where option)\<rparr>
     = Inr \<lparr>q_where = None, q_limit = Some ''LIMIT Infinity'', q_sort = None\<rparr>"
  by (simp add: createFindQuery_def limit_clause_def show_int_def show_nat.simps digit_char_def)

subsection \<open>createUpdateQuery: the rows\<close>

lemma update_rows_result:
  fixes upds :: "(string \<times> 'v) list list"
  assumes "update_rows upds i wh rows = Inr out"
  shows "\<exists>new. out = rows @ new \<and> length new = length upds
           \<and> (\<forall>j<length upds.
                  keys (new ! j) = map (\<lambda>key. key @ '' = ?'') (map fst (upds ! j))
                  \<and> values_r (new ! j) = map snd (upds ! j)
                  \<and> (\<exists>w p. slot wh (i + j) = Some w \<and> parse (result w) = Inr p
                         \<and> where_r (new ! j) = query p))"
  using assms
proof (induction upds arbitrary: i rows)
  case Nil
  then show ?case by simp
next
  case (Cons u us)
  from Cons.prems obtain w p where w: "slot wh i = Some w" "parse (result w) = Inr p"
    by (auto split: option.splits sum.splits)
  let ?row = "\<lparr>keys = map (\<lambda>key. key @ '' = ?'') (map fst u), values_r = map snd u,
               where_r = query p\<rparr>"
  from Cons.prems w have "update_rows us (Suc i) wh (rows @ [?row]) = Inr out" by simp
  from Cons.IH [OF this] obtain new where new:
    "out = (rows @ [?row]) @ new" "length new = length us"
    "\<forall>j<length us.
        keys (new ! j) = map (\<lambda>key. key @ '' = ?'') (map fst (us ! j))
        \<and> values_r (new ! j) = map snd (us ! j)
        \<and> (\<exists>w p. slot wh (Suc i + j) = Some w \<and> parse (result w) = Inr p
               \<and> where_r (new ! j) = query p)"
    by blast
  have "keys ((?row # new) ! j) = map (\<lambda>key. key @ '' = ?'') (map fst ((u # us) ! j))
          \<and> values_r ((?row # new) ! j) = map snd ((u # us) ! j)
          \<and> (\<exists>w p. slot wh (i + j) = Some w \<and> parse (result w) = Inr p
                 \<and> where_r ((?row # new) ! j) = query p)"
    if "j < length (u # us)" for j
  proof (cases j)
    case 0
    then show ?thesis using w by simp
  next
    case (Suc k)
    then have "k < length us" using that by simp
    with new(3) Suc show ?thesis by simp
  qed
  then show ?case using new(1,2) by (intro exI [of _ "?row # new"]) simp
qed

lemma update_rows_total:
  fixes upds :: "(string \<times> 'v) list list"
  assumes "\<forall>j<length upds. \<exists>w p. slot wh (i + j) = Some w \<and> parse (result w) = Inr p"
  shows "\<exists>out. update_rows upds i wh rows = Inr out"
  using assms
proof (induction upds arbitrary: i rows)
  case Nil
  then show ?case by simp
next
  case (Cons u us)
  from Cons.prems have "\<exists>w p. slot wh (i + 0) = Some w \<and> parse (result w) = Inr p" by blast
  then obtain w p where w: "slot wh i = Some w" "parse (result w) = Inr p" by auto
  have "\<exists>w p. slot wh (Suc i + j) = Some w \<and> parse (result w) = Inr p" if "j < length us" for j
  proof -
    from that have "Suc j < length (u # us)" by simp
    with Cons.prems have "\<exists>w p. slot wh (i + Suc j) = Some w \<and> parse (result w) = Inr p" by blast
    then show ?thesis by simp
  qed
  then have "\<forall>j<length us. \<exists>w p. slot wh (Suc i + j) = Some w \<and> parse (result w) = Inr p" by blast
  from Cons.IH [OF this] show ?case using w by simp
qed

lemma slot_pad_where:
  "wh \<noteq> [] \<Longrightarrow> j < n \<Longrightarrow> slot (pad_where n wh) j = (if j < length wh then wh ! j else last wh)"
  by (auto simp: slot_def pad_where_def at_last_def Let_def nth_append)


lemma fst_createUpdateQuery:
  "fst (createUpdateQuery upds wh) = Inr out \<longleftrightarrow>
     update_rows upds 0 (pad_where (length upds) wh) [] = Inr (updates out)"
  by (cases "update_rows upds 0 (pad_where (length upds) wh) []")
     (auto simp: createUpdateQuery_def Let_def)


text \<open>Without any condition the first payload already fails: its slot is \<^verbatim>\<open>undefined\<close>.\<close>

lemma createUpdateQuery_no_conditions:
  "fst (createUpdateQuery (u # us) []) = Inl TypeError"
  by (simp add: createUpdateQuery_def pad_where_def at_last_def slot_def Let_def)

text \<open>
  C8, as the claim states it, fails: with one payload and no condition the payloads
  outnumber the conditions, there is no last condition to reuse, \<^verbatim>\<open>undefined\<close> is pushed in
  its place, and compiling the payload raises a TypeError.
\<close>

theorem createUpdateQuery_without_conditions:
  "createUpdateQuery [[(''name'', Str ''a'')]] [] = (Inl TypeError, [None])"
  by (simp add: createUpdateQuery_def pad_where_def at_last_def slot_def Let_def)

text \<open>
  C8, amended. When the payloads outnumber the supplied conditions and at least one
  condition is supplied (the supplied ones compiling), the compilation returns one row per
  payload: row \<open>j\<close> is compiled with condition \<open>j\<close> while there is one, and every excess row
  with the last supplied condition. No error is raised for the mismatch.
\<close>

theorem createUpdateQuery_reuses_last_condition:
  fixes upds :: "(string \<times> 'v) list list"
  assumes "wh \<noteq> []" and "length wh < length upds"
    and "\<forall>c \<in> set wh. \<exists>w p. c = Some w \<and> parse (result w) = Inr p"
  shows "\<exists>out. fst (createUpdateQuery upds wh) = Inr out
           \<and> length (updates out) = length upds
           \<and> (\<forall>j<length upds. \<exists>w p.
                  (if j < length wh then wh ! j else last wh) = Some w
                  \<and> parse (result w) = Inr p
                  \<and> where_r (updates out ! j) = query p)"
proof -
  let ?wh = "pad_where (length upds) wh"
  have used: "\<exists>w p. slot ?wh j = Some w \<and> parse (result w) = Inr p" if "j < length upds" for j
  proof -
    have "(if j < length wh then wh ! j else last wh) \<in> set wh"
      using assms(1) by simp
    with assms(3) slot_pad_where [OF assms(1) that] show ?thesis by auto
  qed
  then have "\<forall>j<length upds. \<exists>w p. slot ?wh (0 + j) = Some w \<and> parse (result w) = Inr p"
    by simp
  from update_rows_total [OF this] obtain rows where rows: "update_rows upds 0 ?wh [] = Inr rows"
    by blast
  from update_rows_result [OF rows] obtain new where new:
    "rows = new" "length new = length upds"
    "\<forall>j<length upds. \<exists>w p. slot ?wh (0 + j) = Some w \<and> parse (result w) = Inr p
        \<and> where_r (new ! j) = query p"
    by auto
  have "\<exists>w p. (if j < length wh then wh ! j else last wh) = Some w \<and> parse (result w) = Inr p
          \<and> where_r (rows ! j) = query p" if "j < length upds" for j
  proof -
    from new(3) that obtain w p where
      "slot ?wh j = Some w" "parse (result w) = Inr p" "where_r (new ! j) = query p"
      by auto
    then show ?thesis
      using new(1) slot_pad_where [OF assms(1) that] by simp
  qed
  moreover have "fst (createUpdateQuery upds wh) = Inr \<lparr>updates = rows\<rparr>"
    using rows by (simp add: fst_createUpdateQuery)
  ultimately show ?thesis
    using new(1,2) by (intro exI [of _ "\<lparr>updates = rows\<rparr>"]) simp
qed

theorem createUpdateQuery_reuses_last_condition_witness:
  "[Some (Where (Condition ''id'' ''eq'' (Num 7)))] \<noteq> []
   \<and> length [Some (Where (Condition ''id'' ''eq'' (Num 7)))]
       < length [[(''name'', Str ''a'')], [(''name'', Str ''b'')], [(''age'', Num 3)]]
   \<and> (\<exists>out. fst (createUpdateQuery
                    [[(''name'', Str ''a'')], [(''name'', Str ''b'')], [(''age'', Num 3)]]
                    [Some (Where (Condition ''id'' ''eq'' (Num 7)))]) = Inr out
          \<and> length (updates out) = 3
          \<and> where_r (updates out ! 0) = ''id = ?''
          \<and> where_r (updates out ! 1) = ''id = ?''
          \<and> where_r (updates out ! 2) = ''id = ?'')"
proof -
  let ?upds = "[[(''name'', Str ''a'')], [(''name'', Str ''b'')], [(''age'', Num 3)]]"
  let ?w = "Where (Condition ''id'' ''eq'' (Num 7))"
  let ?wh = "[Some ?w]"
  have compiled: "parse (result ?w) = Inr \<lparr>query = ''id = ?'', values_p = [Num 7]\<rparr>"
    by (simp add: parseSimpleCondition_def convertOperatorToSql_def)
  have h1: "?wh \<noteq> []" by simp
  have h2: "length ?wh < length ?upds" by simp
  have h3: "\<forall>c \<in> set ?wh. \<exists>w p. c = Some w \<and> parse (result w) = Inr p"
    using compiled by simp
  from createUpdateQuery_reuses_last_condition [OF h1 h2 h3] obtain out where out:
    "fst (createUpdateQuery ?upds ?wh) = Inr out" "length (updates out) = length ?upds"
    "\<forall>j<length ?upds. \<exists>w p. (if j < length ?wh then ?wh ! j else last ?wh) = Some w
        \<and> parse (result w) = Inr p \<and> where_r (updates out ! j) = query p"
    by blast
  have "where_r (updates out ! j) = ''id = ?''" if "j < length ?upds" for j
  proof -
    from out(3) that obtain w p where
      "(if j < length ?wh then ?wh ! j else last ?wh) = Some w"
      "parse (result w) = Inr p" "where_r (updates out ! j) = query p"
      by blast
    moreover from this(1) have "w = ?w" by (simp split: if_splits)
    ultimately show ?thesis using compiled by simp
  qed
  from this [of 0] this [of 1] this [of 2]
  have "where_r (updates out ! 0) = ''id = ?''" "where_r (updates out ! 1) = ''id = ?''"
    "where_r (updates out ! 2) = ''id = ?''"
    by simp_all
  moreover have "length (updates out) = 3" using out(2) by simp
  ultimately show ?thesis using out(1) h1 h2 by blast
qed

subsection \<open>The compile methods and the caller's side\<close>





subsection \<open>createUpdateQuery: the values of a row and of its condition\<close>


















section \<open>Properties of the collection\<close>

subsection \<open>insert\<close>

text \<open>
  C4. The claim: for a non-empty sequence of records, \<open>insert\<close> builds one multi-row INSERT
  from the keys of the first record, executes it once and returns the records with their
  synthesized ids. The code reads the first record as \<^verbatim>\<open>query[0]\<close>, a property the parameter
  object does not have, so for every structured argument \<^verbatim>\<open>Object.keys\<close> throws, the handler
  wraps the TypeError, and the pool is never asked: its state is the one before the call.
\<close>

theorem insert_structured_raises:
  "insert pool collectionName (Params \<lparr>documents = docs, index0 = None\<rparr>) s
     = (Inl (CollectionError TypeErrorCause), s)"
  by (simp add: insert_def)

text \<open>
  The rest of the method, as it runs for an argument that also has a property \<^verbatim>\<open>0\<close>: one
  statement, and the insert id plus the position as the id of each record.
\<close>

lemma insert_with_property_0:
  "insert (recording_pool (\<lambda>sql. False)) ''users''
     (Params \<lparr>documents = [[(''name'', Str ''a''), (''age'', Num 1)], [(''name'', Str ''b''), (''age'', Num 2)]],
              index0 = Some [(''name'', Str ''a''), (''age'', Num 1)]\<rparr>) []
   = (Inr [[(''name'', Str ''a''), (''age'', Num 1), (''id'', Num 10)],
           [(''name'', Str ''b''), (''age'', Num 2), (''id'', Num 11)]],
      [(''INSERT INTO users (name, age) VALUES (?, ?), (?, ?)'',
        Some [Str ''a'', Num 1, Str ''b'', Num 2])])"
  by (simp add: insert_def insert_sql_def recording_pool_def upt_rec)

subsection \<open>What a rejected statement becomes\<close>

lemma updateMany_rejected:
  assumes "beginTransaction pool s = (Inr u, s_begun)"
    and "issue_all pool collectionName rows s_begun = (promises, s_issued)"
    and "promise_all promises = Inl e"
  shows "updateMany pool collectionName rows s = updateMany_catch pool s_issued"
  using assms by (simp add: updateMany_def)

lemma update_many_rows:
  "length rows \<noteq> 1 \<Longrightarrow>
   update pool collectionName (Params \<lparr>updates = rows\<rparr>) s = updateMany pool collectionName rows s"
  by (cases rows rule: list.exhaust [case_names Nil Cons])
     (auto simp: update_def split: list.splits)

text \<open>
  C5, as the claim states it, fails: when the pool rejects the statement of a single-row
  update, the update does not raise; it resolves with the failure status.
\<close>

theorem update_single_row_resolves:
  "update (recording_pool (\<lambda>sql. True)) ''users''
     (Params \<lparr>updates = [\<lparr>keys = [''name = ?''], values_r = [Str ''x''], where_r = ''id = 1''\<rparr>]\<rparr>) []
   = (Inr \<lparr>status = Failure, modifiedCount = None\<rparr>,
      [(''UPDATE users SET name = ? id = 1'', Some [Str ''x''])])"
  by (simp add: update_def updateOne_def update_sql_def recording_pool_def)

text \<open>
  C5, amended. When the pool rejects the statement of a call: \<open>find\<close>, \<open>remove\<close>, \<open>count\<close>,
  \<open>aggregate\<close>, \<open>insert\<close> and the update given as a raw statement raise the collection's
  error, wrapping the driver's error. Both update paths over compiled rows capture the
  failure instead: the single-row path resolves with the failure status at once, without a
  rollback; the multi-row path issues a rollback and then resolves with the failure status
  (if the rollback itself is rejected, that error propagates unwrapped).
\<close>

theorem rejected_statement_outcomes:
  "(pool_query pool (find_sql collectionName fq) None s = (Inl e, s')
      \<longrightarrow> find pool collectionName fq s = (Inl (CollectionError (DriverError e)), s'))
   \<and> (pool_query pool (remove_sql collectionName rq) None s = (Inl e, s')
      \<longrightarrow> remove pool collectionName rq s = (Inl (CollectionError (DriverError e)), s'))
   \<and> (pool_query pool (count_sql collectionName cq) None s = (Inl e, s')
      \<longrightarrow> count pool collectionName cq s = (Inl (CollectionError (DriverError e)), s'))
   \<and> (pool_query pool (aggregate_sql collectionName aq) None s = (Inl e, s')
      \<longrightarrow> aggregate pool collectionName aq s = (Inl (CollectionError (DriverError e)), s'))
   \<and> (pool_query pool sql None s = (Inl e, s')
      \<longrightarrow> insert pool collectionName (Raw sql) s = (Inl (CollectionError (DriverError e)), s')
          \<and> update pool collectionName (Raw sql) s = (Inl (CollectionError (DriverError e)), s'))
   \<and> (index0 iq = Some first
        \<and> pool_query pool (insert_sql collectionName first (documents iq))
              (Some (concat (map (map snd) (documents iq)))) s = (Inl e, s')
      \<longrightarrow> insert pool collectionName (Params iq) s = (Inl (CollectionError (DriverError e)), s'))
   \<and> (pool_query pool (update_sql collectionName row) (Some (values_r row)) s = (Inl e, s')
      \<longrightarrow> update pool collectionName (Params \<lparr>updates = [row]\<rparr>) s
            = (Inr \<lparr>status = Failure, modifiedCount = None\<rparr>, s'))
   \<and> (length rows \<noteq> 1
        \<and> beginTransaction pool s = (Inr u, s_begun)
        \<and> issue_all pool collectionName rows s_begun = (promises, s_issued)
        \<and> promise_all promises = Inl e
      \<longrightarrow> (rollback pool s_issued = (Inr u', s_rolled)
             \<longrightarrow> update pool collectionName (Params \<lparr>updates = rows\<rparr>) s
                   = (Inr \<lparr>status = Failure, modifiedCount = None\<rparr>, s_rolled))
          \<and> (rollback pool s_issued = (Inl e', s_rolled)
             \<longrightarrow> update pool collectionName (Params \<lparr>updates = rows\<rparr>) s
                   = (Inl (Uncaught (DriverError e')), s_rolled)))"
proof (intro conjI impI)
  show "find pool collectionName fq s = (Inl (CollectionError (DriverError e)), s')"
    if "pool_query pool (find_sql collectionName fq) None s = (Inl e, s')"
    using that by (simp add: find_def)
  show "remove pool collectionName rq s = (Inl (CollectionError (DriverError e)), s')"
    if "pool_query pool (remove_sql collectionName rq) None s = (Inl e, s')"
    using that by (simp add: remove_def)
  show "count pool collectionName cq s = (Inl (CollectionError (DriverError e)), s')"
    if "pool_query pool (count_sql collectionName cq) None s = (Inl e, s')"
    using that by (simp add: count_def)
  show "aggregate pool collectionName aq s = (Inl (CollectionError (DriverError e)), s')"
    if "pool_query pool (aggregate_sql collectionName aq) None s = (Inl e, s')"
    using that by (simp add: aggregate_def)
  show "insert pool collectionName (Raw sql) s = (Inl (CollectionError (DriverError e)), s')"
    if "pool_query pool sql None s = (Inl e, s')"
    using that by (simp add: insert_def)
  show "update pool collectionName (Raw sql) s = (Inl (CollectionError (DriverError e)), s')"
    if "pool_query pool sql None s = (Inl e, s')"
    using that by (simp add: update_def)
  show "insert pool collectionName (Params iq) s = (Inl (CollectionError (DriverError e)), s')"
    if "index0 iq = Some first
        \<and> pool_query pool (insert_sql collectionName first (documents iq))
              (Some (concat (map (map snd) (documents iq)))) s = (Inl e, s')"
    using that by (simp add: insert_def)
  show "update pool collectionName (Params \<lparr>updates = [row]\<rparr>) s
          = (Inr \<lparr>status = Failure, modifiedCount = None\<rparr>, s')"
    if "pool_query pool (update_sql collectionName row) (Some (values_r row)) s = (Inl e, s')"
    using that by (simp add: update_def updateOne_def)
  show "update pool collectionName (Params \<lparr>updates = rows\<rparr>) s
          = (Inr \<lparr>status = Failure, modifiedCount = None\<rparr>, s_rolled)"
    if "length rows \<noteq> 1
        \<and> beginTransaction pool s = (Inr u, s_begun)
        \<and> issue_all pool collectionName rows s_begun = (promises, s_issued)
        \<and> promise_all promises = Inl e"
      and "rollback pool s_issued = (Inr u', s_rolled)"
    using that by (simp add: update_many_rows updateMany_rejected updateMany_catch_def)
  show "update pool collectionName (Params \<lparr>updates = rows\<rparr>) s
          = (Inl (Uncaught (DriverError e')), s_rolled)"
    if "length rows \<noteq> 1
        \<and> beginTransaction pool s = (Inr u, s_begun)
        \<and> issue_all pool collectionName rows s_begun = (promises, s_issued)
        \<and> promise_all promises = Inl e"
      and "rollback pool s_issued = (Inl e', s_rolled)"
    using that by (simp add: update_many_rows updateMany_rejected updateMany_catch_def)
qed

theorem rejected_statement_outcomes_witness:
  "find (recording_pool (\<lambda>sql. True)) ''users'' None []
     = (Inl (CollectionError (DriverError ''ER'')), [(''SELECT * FROM users'', None)])
   \<and> remove (recording_pool (\<lambda>sql. True)) ''users'' None []
     = (Inl (CollectionError (DriverError ''ER'')), [(''DELETE FROM users'', None)])
   \<and> count (recording_pool (\<lambda>sql. True)) ''users'' None []
     = (Inl (CollectionError (DriverError ''ER'')), [(''SELECT COUNT(*) AS count FROM users'', None)])
   \<and> aggregate (recording_pool (\<lambda>sql. True)) ''users''
       \<lparr>pipeline = ''*'', agg_where = Some [], agg_groupBy = Some [], agg_sort = Some []\<rparr> []
     = (Inl (CollectionError (DriverError ''ER'')), [(''SELECT * FROM users   '', None)])
   \<and> insert (recording_pool (\<lambda>sql. True)) ''users'' (Raw ''INSERT INTO users VALUES (1)'') []
     = (Inl (CollectionError (DriverError ''ER'')), [(''INSERT INTO users VALUES (1)'', None)])
   \<and> update (recording_pool (\<lambda>sql. True)) ''users'' (Raw ''UPDATE users SET a = 1'') []
     = (Inl (CollectionError (DriverError ''ER'')), [(''UPDATE users SET a = 1'', None)])
   \<and> insert (recording_pool (\<lambda>sql. True)) ''users''
       (Params \<lparr>documents = [[(''name'', Str ''a'')]], index0 = Some [(''name'', Str ''a'')]\<rparr>) []
     = (Inl (CollectionError (DriverError ''ER'')),
        [(''INSERT INTO users (name) VALUES (?)'', Some [Str ''a''])])
   \<and> update (recording_pool (\<lambda>sql. True)) ''users''
       (Params \<lparr>updates = [\<lparr>keys = [''name = ?''], values_r = [Str ''x''], where_r = ''id = 1''\<rparr>]\<rparr>) []
     = (Inr \<lparr>status = Failure, modifiedCount = None\<rparr>,
        [(''UPDATE users SET name = ? id = 1'', Some [Str ''x''])])
   \<and> update (recording_pool (\<lambda>sql. True)) ''users''
       (Params \<lparr>updates = [\<lparr>keys = [''name = ?''], values_r = [Str ''x''], where_r = ''id = 1''\<rparr>,
                            \<lparr>keys = [''name = ?''], values_r = [Str ''y''], where_r = ''id = 2''\<rparr>]\<rparr>) []
     = (Inr \<lparr>status = Failure, modifiedCount = None\<rparr>,
        [(''BEGIN'', None),
         (''UPDATE users SET name = ? id = 1'', Some [Str ''x'']),
         (''UPDATE users SET name = ? id = 2'', Some [Str ''y'']),
         (''ROLLBACK'', None)])
   \<and> update ((recording_pool (\<lambda>sql. True)) \<lparr>rollback := (\<lambda>s. (Inl ''GONE'', s))\<rparr>) ''users''
       (Params \<lparr>updates = [\<lparr>keys = [''name = ?''], values_r = [Str ''x''], where_r = ''id = 1''\<rparr>,
                            \<lparr>keys = [''name = ?''], values_r = [Str ''y''], where_r = ''id = 2''\<rparr>]\<rparr>) []
     = (Inl (Uncaught (DriverError ''GONE'')),
        [(''BEGIN'', None),
         (''UPDATE users SET name = ? id = 1'', Some [Str ''x'']),
         (''UPDATE users SET name = ? id = 2'', Some [Str ''y''])])"
proof -
  let ?P = "recording_pool (\<lambda>sql. True)"
  let ?Q = "(recording_pool (\<lambda>sql. True)) \<lparr>rollback := (\<lambda>s. (Inl ''GONE'', s))\<rparr>"
  let ?r1 = "\<lparr>keys = [''name = ?''], values_r = [Str ''x''], where_r = ''id = 1''\<rparr>"
  let ?r2 = "\<lparr>keys = [''name = ?''], values_r = [Str ''y''], where_r = ''id = 2''\<rparr>"
  let ?iq = "\<lparr>documents = [[(''name'', Str ''a'')]], index0 = Some [(''name'', Str ''a'')]\<rparr>"
  let ?aq = "\<lparr>pipeline = ''*'', agg_where = Some [], agg_groupBy = Some [], agg_sort = Some []\<rparr>"
  let ?log = "[(''BEGIN'', None),
               (''UPDATE users SET name = ? id = 1'', Some [Str ''x'']),
               (''UPDATE users SET name = ? id = 2'', Some [Str ''y''])]"
  note outcomes = rejected_statement_outcomes
    [where collectionName = "''users''" and s = "[]"]
  have query_rejected: "pool_query ?P sql vs s = (Inl ''ER'', s @ [(sql, vs)])" for sql vs s
    by (simp add: recording_pool_def)
  have a: "find ?P ''users'' None [] = (Inl (CollectionError (DriverError ''ER'')), [(''SELECT * FROM users'', None)])"
    using outcomes [where pool = ?P and fq = None and e = "''ER''"
                      and s' = "[(''SELECT * FROM users'', None)]"]
    by (simp add: query_rejected find_sql_def)
  have b: "remove ?P ''users'' None [] = (Inl (CollectionError (DriverError ''ER'')), [(''DELETE FROM users'', None)])"
    using outcomes [where pool = ?P and rq = None and e = "''ER''"
                      and s' = "[(''DELETE FROM users'', None)]"]
    by (simp add: query_rejected remove_sql_def)
  have c: "count ?P ''users'' None []
             = (Inl (CollectionError (DriverError ''ER'')), [(''SELECT COUNT(*) AS count FROM users'', None)])"
    using outcomes [where pool = ?P and cq = None and e = "''ER''"
                      and s' = "[(''SELECT COUNT(*) AS count FROM users'', None)]"]
    by (simp add: query_rejected count_sql_def)
  have d: "aggregate ?P ''users'' ?aq []
             = (Inl (CollectionError (DriverError ''ER'')), [(''SELECT * FROM users   '', None)])"
    using outcomes [where pool = ?P and aq = ?aq and e = "''ER''"
                      and s' = "[(''SELECT * FROM users   '', None)]"]
    by (simp add: query_rejected aggregate_sql_def interpolate_string_def)
  have e: "insert ?P ''users'' (Raw ''INSERT INTO users VALUES (1)'') []
             = (Inl (CollectionError (DriverError ''ER'')), [(''INSERT INTO users VALUES (1)'', None)])"
    using outcomes [where pool = ?P and sql = "''INSERT INTO users VALUES (1)''" and e = "''ER''"
                      and s' = "[(''INSERT INTO users VALUES (1)'', None)]"]
    by (simp add: query_rejected)
  have f: "update ?P ''users'' (Raw ''UPDATE users SET a = 1'') []
             = (Inl (CollectionError (DriverError ''ER'')), [(''UPDATE users SET a = 1'', None)])"
    using outcomes [where pool = ?P and sql = "''UPDATE users SET a = 1''" and e = "''ER''"
                      and s' = "[(''UPDATE users SET a = 1'', None)]"]
    by (simp add: query_rejected)
  have g: "insert ?P ''users'' (Params ?iq) []
             = (Inl (CollectionError (DriverError ''ER'')),
                [(''INSERT INTO users (name) VALUES (?)'', Some [Str ''a''])])"
    using outcomes [where pool = ?P and iq = ?iq and first = "[(''name'', Str ''a'')]" and e = "''ER''"
                      and s' = "[(''INSERT INTO users (name) VALUES (?)'', Some [Str ''a''])]"]
    by (simp add: query_rejected insert_sql_def)
  have h: "update ?P ''users'' (Params \<lparr>updates = [?r1]\<rparr>) []
             = (Inr \<lparr>status = Failure, modifiedCount = None\<rparr>,
                [(''UPDATE users SET name = ? id = 1'', Some [Str ''x''])])"
    using outcomes [where pool = ?P and row = ?r1 and e = "''ER''"
                      and s' = "[(''UPDATE users SET name = ? id = 1'', Some [Str ''x''])]"]
    by (simp add: query_rejected update_sql_def)
  have issued: "issue_all ?P ''users'' [?r1, ?r2] [(''BEGIN'', None)] = ([Inl ''ER'', Inl ''ER''], ?log)"
    by (simp add: query_rejected update_sql_def)
  have began: "beginTransaction ?P [] = (Inr (), [(''BEGIN'', None)])"
    by (simp add: recording_pool_def)
  have rolled: "rollback ?P ?log = (Inr (), ?log @ [(''ROLLBACK'', None)])"
    by (simp add: recording_pool_def)
  have i: "update ?P ''users'' (Params \<lparr>updates = [?r1, ?r2]\<rparr>) []
             = (Inr \<lparr>status = Failure, modifiedCount = None\<rparr>, ?log @ [(''ROLLBACK'', None)])"
    using outcomes [where pool = ?P and rows = "[?r1, ?r2]" and u = "()" and s_begun = "[(''BEGIN'', None)]"
                      and promises = "[Inl ''ER'', Inl ''ER'']" and s_issued = ?log and e = "''ER''"
                      and u' = "()" and s_rolled = "?log @ [(''ROLLBACK'', None)]"]
      issued began rolled
    by simp
  have issued': "issue_all ?Q ''users'' [?r1, ?r2] [(''BEGIN'', None)] = ([Inl ''ER'', Inl ''ER''], ?log)"
    by (simp add: recording_pool_def update_sql_def)
  have began': "beginTransaction ?Q [] = (Inr (), [(''BEGIN'', None)])"
    by (simp add: recording_pool_def)
  have rolled': "rollback ?Q ?log = (Inl ''GONE'', ?log)"
    by simp
  have j: "update ?Q ''users'' (Params \<lparr>updates = [?r1, ?r2]\<rparr>) []
             = (Inl (Uncaught (DriverError ''GONE'')), ?log)"
    using outcomes [where pool = ?Q and rows = "[?r1, ?r2]" and u = "()" and s_begun = "[(''BEGIN'', None)]"
                      and promises = "[Inl ''ER'', Inl ''ER'']" and s_issued = ?log and e = "''ER''"
                      and e' = "''GONE''" and s_rolled = ?log]
      issued' began' rolled'
    by simp
  from a b c d e f g h i j show ?thesis by simp
qed

end
